theory Spec2Isabelle
  imports Main "HOL-Library.AList" "HOL-Library.Sublist"
begin

section \<open>JavaScript values and React elements\<close>

text \<open>
  The page module \<^verbatim>\<open>resources/js/Pages/error-handling.js\<close> builds plain JavaScript
  data: strings, array literals, object literals and React elements. An object literal
  is an association list in property order. A React element carries its type and its
  props; the children of an element are its \<^verbatim>\<open>children\<close> prop, as in React.

  Strings are byte strings: all text of the module is ASCII, apart from the one HTML
  entity \<^verbatim>\<open>&hellip;\<close>, which is written as the UTF-8 bytes of U+2026.
\<close>

datatype tag =
    Fragment
  | Component string
  | Host string

datatype jsval =
    Undefined
  | Null
  | Str string
  | Arr "jsval list"
  | Obj "(string \<times> jsval) list"
  | Element tag "(string \<times> jsval) list"

type_synonym props = "(string \<times> jsval) list"

text \<open>
  A JSX expression \<^verbatim>\<open><T a={x}>c1 c2</T>\<close> is \<^verbatim>\<open>React.createElement(T, {a: x}, c1, c2)\<close>:
  the element's props are the attributes, and the children become the \<^verbatim>\<open>children\<close>
  prop: absent without children, the child itself for one child, an array for several.
  The imported components (\<^verbatim>\<open>H1\<close>, \<^verbatim>\<open>P\<close>, \<^verbatim>\<open>TabbedCode\<close>, \<^verbatim>\<open>Layout\<close> and the others)
  are not among the sources; an element only names its component, and no component is
  taken to declare default props.
\<close>

definition createElement :: "tag \<Rightarrow> props \<Rightarrow> jsval list \<Rightarrow> jsval" where
  "createElement t config children =
     Element t (case children of
                  [] \<Rightarrow> config
                | [c] \<Rightarrow> AList.update ''children'' c config
                | _ \<Rightarrow> AList.update ''children'' (Arr children) config)"

text \<open>
  JSX text that spans several source lines: each line is trimmed and the non-empty
  lines are joined by one space.
\<close>

fun jsx_text :: "string list \<Rightarrow> string" where
  "jsx_text [] = []"
| "jsx_text [l] = l"
| "jsx_text (l # ls) = l @ '' '' @ jsx_text ls"

abbreviation (input) bs :: string where "bs \<equiv> [CHR 0x5C]"
abbreviation (input) nl :: string where "nl \<equiv> [CHR 0x0A]"
abbreviation (input) sq :: string where "sq \<equiv> [CHR 0x27]"

definition hellip :: string where
  "hellip = [CHR 0xE2, CHR 0x80, CHR 0xA6]"

text \<open>
  The cooked text of a template literal without substitutions whose opening backtick
  ends a line: a line break before each line of the body, and a line break and the
  indentation of the closing backtick after the last one. In the bodies below \<open>bs\<close>
  is a backslash (an escaped backslash of the source), \<open>nl\<close> a line feed (the escape
  for a new line at the end of a source line) and \<open>sq\<close> a single quote.
\<close>

definition template :: "nat \<Rightarrow> string list \<Rightarrow> string" where
  "template k ls = concat (map (\<lambda>l. nl @ l) ls) @ nl @ replicate k (CHR '' '')"

section \<open>The module\<close>

subsection \<open>Page metadata\<close>

definition meta :: jsval where
  "meta = Obj
     [(''title'', Str ''Error handling''),
      (''links'', Arr
         [Obj [(''url'', Str ''#development''), (''name'', Str ''Development'')],
          Obj [(''url'', Str ''#production''), (''name'', Str ''Production'')]])]"

subsection \<open>The code snippets\<close>

definition laravel_lines :: "string list" where
  \<open>laravel_lines =
    [''              use Throwable;'',
     ''              use Inertia'' @ bs @ ''Inertia;'' @ nl,
     ''              /**'',
     ''               * Prepare exception for rendering.'',
     ''               *'',
     ''               * @param  '' @ bs @ ''Throwable  $e'',
     ''               * @return '' @ bs @ ''Throwable'',
     ''               */'',
     ''              public function render($request, Throwable $e)'',
     ''              {'',
     ''                  $response = parent::render($request, $e);'' @ nl,
     ''                  if (!app()->environment(['local', 'testing']) && in_array($response->getStatusCode(), [500, 503, 404, 403])) {'',
     ''                      return Inertia::render('Error', ['status' => $response->getStatusCode()])'',
     ''                          ->toResponse($request)'',
     ''                          ->setStatusCode($response->getStatusCode());'',
     ''                  } else if ($response->getStatusCode() === 419) {'',
     ''                      return back()->with(['',
     ''                          'message' => 'The page expired, please try again.','',
     ''                      ]);'',
     ''                  }'' @ nl,
     ''                  return $response;'',
     ''              }'']\<close>

definition laravel_code :: string where
  "laravel_code = template 12 laravel_lines"

definition rails_lines :: "string list" where
  \<open>rails_lines =
    [''              # todo'']\<close>

definition rails_code :: string where
  "rails_code = template 12 rails_lines"

definition vue2_lines :: "string list" where
  \<open>vue2_lines =
    [''              <template>'',
     ''                <div>'',
     ''                  <H1>{{ title }}</H1>'',
     ''                  <div>{{ description }}</div>'',
     ''                </div>'',
     ''              </template>'' @ nl,
     ''              <script>'',
     ''              export default {'',
     ''                props: {'',
     ''                  status: Number,'',
     ''                },'',
     ''                computed: {'',
     ''                  title() {'',
     ''                    return {'',
     ''                      503: '503: Service Unavailable','',
     ''                      500: '500: Server Error','',
     ''                      404: '404: Page Not Found','',
     ''                      403: '403: Forbidden','',
     ''                    }[this.status]'',
     ''                  },'',
     ''                  description() {'',
     ''                    return {'',
     ''                      503: 'Sorry, we are doing some maintenance. Please check back soon.','',
     ''                      500: 'Whoops, something went wrong on our servers.','',
     ''                      404: 'Sorry, the page you are looking for could not be found.','',
     ''                      403: 'Sorry, you are forbidden from accessing this page.','',
     ''                    }[this.status]'',
     ''                  },'',
     ''                },'',
     ''              }'',
     ''              </script>'']\<close>

definition vue2_code :: string where
  "vue2_code = template 12 vue2_lines"

definition vue3_lines :: "string list" where
  \<open>vue3_lines =
    [''              <template>'',
     ''                <div>'',
     ''                  <H1>{{ title }}</H1>'',
     ''                  <div>{{ description }}</div>'',
     ''                </div>'',
     ''              </template>'' @ nl,
     ''              <script>'',
     ''              export default {'',
     ''                props: {'',
     ''                  status: Number,'',
     ''                },'',
     ''                computed: {'',
     ''                  title() {'',
     ''                    return {'',
     ''                      503: '503: Service Unavailable','',
     ''                      500: '500: Server Error','',
     ''                      404: '404: Page Not Found','',
     ''                      403: '403: Forbidden','',
     ''                    }[this.status]'',
     ''                  },'',
     ''                  description() {'',
     ''                    return {'',
     ''                      503: 'Sorry, we are doing some maintenance. Please check back soon.','',
     ''                      500: 'Whoops, something went wrong on our servers.','',
     ''                      404: 'Sorry, the page you are looking for could not be found.','',
     ''                      403: 'Sorry, you are forbidden from accessing this page.','',
     ''                    }[this.status]'',
     ''                  },'',
     ''                },'',
     ''              }'',
     ''              </script>'']\<close>

definition vue3_code :: string where
  "vue3_code = template 12 vue3_lines"

definition react_lines :: "string list" where
  \<open>react_lines =
    [''              import React from 'react'' @ sq @ nl,
     ''              export default function ErrorPage({ status }) {'',
     ''                const title = {'',
     ''                  503: '503: Service Unavailable','',
     ''                  500: '500: Server Error','',
     ''                  404: '404: Page Not Found','',
     ''                  403: '403: Forbidden','',
     ''                }[status]'' @ nl,
     ''                const description = {'',
     ''                  503: 'Sorry, we are doing some maintenance. Please check back soon.','',
     ''                  500: 'Whoops, something went wrong on our servers.','',
     ''                  404: 'Sorry, the page you are looking for could not be found.','',
     ''                  403: 'Sorry, you are forbidden from accessing this page.','',
     ''                }[status]'' @ nl,
     ''                return ('',
     ''                  <div>'',
     ''                    <H1>{title}</H1>'',
     ''                    <div>{description}</div>'',
     ''                  </div>'',
     ''                )'',
     ''              }'']\<close>

definition react_code :: string where
  "react_code = template 12 react_lines"

definition svelte_lines :: "string list" where
  \<open>svelte_lines =
    [''              <script>'',
     ''                export let status'' @ nl,
     ''                $: title = {'',
     ''                  503: '503: Service Unavailable','',
     ''                  500: '500: Server Error','',
     ''                  404: '404: Page Not Found','',
     ''                  403: '403: Forbidden','',
     ''                }[status]'' @ nl,
     ''                $: description = {'',
     ''                  503: 'Sorry, we are doing some maintenance. Please check back soon.','',
     ''                  500: 'Whoops, something went wrong on our servers.','',
     ''                  404: 'Sorry, the page you are looking for could not be found.','',
     ''                  403: 'Sorry, you are forbidden from accessing this page.','',
     ''                }[status]'',
     ''              </script>'' @ nl,
     ''              <div>'',
     ''                <H1>{title}</H1>'',
     ''                <div>{description}</div>'',
     ''              </div>'']\<close>

definition svelte_code :: string where
  "svelte_code = template 12 svelte_lines"


subsection \<open>The dedent tag\<close>

text \<open>
  Modelled from the spec: the text-dedenting helper \<^verbatim>\<open>dedent\<close>, imported from the
  package \<^verbatim>\<open>dedent-js\<close>, is not among the sources. The model follows the algorithm of
  that package for a template without substitutions (one cooked string, no values):
  \<^enum> remove the last line break of the string when only tabs and spaces follow it
    (\<^verbatim>\<open>/\r?\n([\t ]*)$/\<close>);
  \<^enum> collect the indentation after every line break that is followed by at least one
    tab or space (\<^verbatim>\<open>/\n[\t ]+/g\<close>);
  \<^enum> when there is any, remove the smallest such indentation after every line break
    that is followed by at least that many tabs or spaces;
  \<^enum> remove a line break at the very start (\<^verbatim>\<open>/^\r?\n/\<close>).
\<close>

definition is_indent :: "char \<Rightarrow> bool" where
  "is_indent c \<longleftrightarrow> c = CHR 0x09 \<or> c = CHR '' ''"

fun only_indent :: "string \<Rightarrow> bool" where
  "only_indent [] = True"
| "only_indent (c # cs) = (if is_indent c then only_indent cs else False)"

fun at_trailing_break :: "string \<Rightarrow> bool" where
  "at_trailing_break [] = False"
| "at_trailing_break (c # cs) =
     (if c = CHR 0x0A then only_indent cs
      else if c = CHR 0x0D then
        (case cs of [] \<Rightarrow> False | d # ds \<Rightarrow> if d = CHR 0x0A then only_indent ds else False)
      else False)"

fun remove_trailing :: "string \<Rightarrow> string" where
  "remove_trailing [] = []"
| "remove_trailing (c # cs) =
     (if at_trailing_break (c # cs) then [] else c # remove_trailing cs)"

fun indents :: "string \<Rightarrow> nat list" where
  "indents [] = []"
| "indents (c # cs) =
     (if c = CHR 0x0A then
        (case takeWhile is_indent cs of
           [] \<Rightarrow> indents cs
         | w # ws \<Rightarrow> length (w # ws) # indents cs)
      else indents cs)"

fun unindent :: "nat \<Rightarrow> string \<Rightarrow> string" where
  "unindent n [] = []"
| "unindent n (c # cs) =
     (if c = CHR 0x0A then
        (if n \<le> length (takeWhile is_indent cs)
         then c # unindent n (drop n cs)
         else c # unindent n cs)
      else c # unindent n cs)"

fun remove_leading :: "string \<Rightarrow> string" where
  "remove_leading [] = []"
| "remove_leading (c # cs) =
     (if c = CHR 0x0A then cs
      else if c = CHR 0x0D then
        (case cs of [] \<Rightarrow> c # cs | d # ds \<Rightarrow> if d = CHR 0x0A then ds else c # cs)
      else c # cs)"

definition dedent_js :: "string \<Rightarrow> string" where
  "dedent_js s =
     (let s1 = remove_trailing s;
          matches = indents s1;
          s3 = (if matches = [] then s1 else unindent (min_list matches) s1)
      in remove_leading s3)"

subsection \<open>The page\<close>

text \<open>
  \<open>dedent\<close> is the imported tag function, a parameter of the page: what holds for every
  \<open>dedent\<close> holds whatever the package does. Every use in the module is a tagged template
  without substitutions, so the tag is applied to one cooked string. The two example
  arrays are literals inside the body of \<open>Page\<close>; they are named here to keep the tree
  readable.
\<close>

definition handler_examples :: "(string \<Rightarrow> string) \<Rightarrow> jsval" where
  \<open>handler_examples dedent = Arr
     [Obj [(''name'', Str ''Laravel''),
           (''language'', Str ''php''),
           (''description'',
              Str (''Extend the render() method in your App'' @ bs @ ''Exceptions'' @ bs @ ''Handler.php.'')),
           (''code'', Str (dedent laravel_code))],
      Obj [(''name'', Str ''Rails''),
           (''language'', Str ''ruby''),
           (''code'', Str (dedent rails_code))]]\<close>

definition error_page_examples :: "(string \<Rightarrow> string) \<Rightarrow> jsval" where
  \<open>error_page_examples dedent = Arr
     [Obj [(''name'', Str ''Vue 2''),
           (''language'', Str ''twig''),
           (''code'', Str (dedent vue2_code))],
      Obj [(''name'', Str ''Vue 3''),
           (''language'', Str ''twig''),
           (''code'', Str (dedent vue3_code))],
      Obj [(''name'', Str ''React''),
           (''language'', Str ''jsx''),
           (''code'', Str (dedent react_code))],
      Obj [(''name'', Str ''Svelte''),
           (''language'', Str ''html''),
           (''code'', Str (dedent svelte_code))]]\<close>

text \<open>
  The tree that the body of \<open>Page\<close> builds. \<open>Page\<close> is an arrow function without
  parameters, so the tree depends on nothing but the imported names.
\<close>

definition Page :: "(string \<Rightarrow> string) \<Rightarrow> jsval" where
  \<open>Page dedent =
     createElement Fragment []
      [createElement (Component ''H1'') [] [Str ''Error handling''],
       createElement (Component ''H2'') [] [Str ''Development''],
       createElement (Component ''P'') []
        [Str (jsx_text
           [''One of the nice things about working with a server-side framework is the built-in exception handling you get for'',
            ''free. For example, Laravel ships with '']),
         createElement (Component ''A'') [(''href'', Str ''https://github.com/facade/ignition'')]
           [Str ''Ignition''],
         Str (jsx_text
           ['', a beautiful'',
            ''error reporting tool which displays a nicely formatted stack trace in local development.''])],
       createElement (Component ''P'') []
        [Str (jsx_text
           [''The challenge is, if you're making an XHR request (which Inertia does), and you hit a server-side error, you're'',
            ''typically left digging through the network tab in your browser's devtools.''])],
       createElement (Component ''P'') []
        [Str (jsx_text
           [''Inertia solves this by showing all non-Inertia responses in a modal. Meaning you get the same beautiful'',
            ''error-reporting, even though you've made that request over XHR!''])],
       createElement (Host ''div'')
         [(''className'', Str ''my-6 relative rounded overflow-hidden bg-gray-500''),
          (''style'', Obj [(''paddingTop'', Str ''80.5%'')])]
        [createElement (Host ''div'')
           [(''className'', Str ''absolute inset-0 w-full h-full flex items-center justify-center text-sm'')]
           [Str (''Loading'' @ hellip)],
         createElement (Host ''iframe'')
           [(''className'', Str ''absolute inset-0 w-full h-full''),
            (''src'', Str ''https://player.vimeo.com/video/363562630?autoplay=1&loop=1&muted=1&background=1'')]
           []],
       createElement (Component ''Notice'') []
        [Str ''Note, the modal behaviour is only intended for development purposes.''],
       createElement (Component ''H2'') [] [Str ''Production''],
       createElement (Component ''P'') []
        [Str (jsx_text
           [''In production you'll want to return a proper Inertia error response instead of relying on the modal behaviour.'',
            ''To do this you'll need to update your framework's default exception handler to return a custom error page.''])],
       createElement (Component ''TabbedCode'') [(''examples'', handler_examples dedent)] [],
       createElement (Component ''P'') []
        [Str (jsx_text
           [''Notice how we're returning an `Error` page component in the example above. You'll need to actually create this.'',
            ''Here's an example error page component you can use as a starting point.''])],
       createElement (Component ''TabbedCode'') [(''examples'', error_page_examples dedent)] []]\<close>

section \<open>Objects in the store\<close>

text \<open>
  Evaluating an object literal, an array literal, an arrow function or a JSX element
  creates a new object; a variable or a property holds a primitive value or a
  reference to an object. The store is the list of all objects created so far, and a
  reference is an index into it. Creating an object appends it; the one assignment of
  the module, \<^verbatim>\<open>Page.layout = ...\<close>, updates an object in place.
\<close>

datatype hval =
    HUndefined
  | HNull
  | HStr string
  | HRef nat

datatype fn = Fn_Page | Fn_layout

datatype hobj =
    HArr "hval list"
  | HObj "(string \<times> hval) list"
  | HElement tag "(string \<times> hval) list"
  | HFunction fn "(string \<times> hval) list"

type_synonym store = "hobj list"

datatype error = TypeError

definition new :: "hobj \<Rightarrow> store \<Rightarrow> hval \<times> store" where
  "new ob s = (HRef (length s), s @ [ob])"

text \<open>
  Evaluating a literal expression: the parts are evaluated from left to right, then the
  object that holds them is created.
\<close>

fun alloc :: "jsval \<Rightarrow> store \<Rightarrow> hval \<times> store"
  and alloc_list :: "jsval list \<Rightarrow> store \<Rightarrow> hval list \<times> store"
  and alloc_props :: "props \<Rightarrow> store \<Rightarrow> (string \<times> hval) list \<times> store" where
  "alloc Undefined s = (HUndefined, s)"
| "alloc Null s = (HNull, s)"
| "alloc (Str x) s = (HStr x, s)"
| "alloc (Arr vs) s = (case alloc_list vs s of (hs, s') \<Rightarrow> new (HArr hs) s')"
| "alloc (Obj ps) s = (case alloc_props ps s of (hps, s') \<Rightarrow> new (HObj hps) s')"
| "alloc (Element t ps) s = (case alloc_props ps s of (hps, s') \<Rightarrow> new (HElement t hps) s')"
| "alloc_list [] s = ([], s)"
| "alloc_list (v # vs) s =
     (case alloc v s of (h, s') \<Rightarrow>
        case alloc_list vs s' of (hs, s'') \<Rightarrow> (h # hs, s''))"
| "alloc_props [] s = ([], s)"
| "alloc_props (kv # ps) s =
     (case alloc (snd kv) s of (h, s') \<Rightarrow>
        case alloc_props ps s' of (hps, s'') \<Rightarrow> ((fst kv, h) # hps, s''))"

text \<open>
  Assigning to a property of an object. Only object literals and function objects take
  new properties here; assigning to a property of \<^verbatim>\<open>undefined\<close>, \<^verbatim>\<open>null\<close>, a
  string (in a module, which is strict code) or of no object at all is a type error.
\<close>

fun set_property :: "hval \<Rightarrow> string \<Rightarrow> hval \<Rightarrow> store \<Rightarrow> error + store" where
  "set_property (HRef a) k v s =
     (if a < length s then
        (case s ! a of
           HObj ps \<Rightarrow> Inr (s[a := HObj (AList.update k v ps)])
         | HFunction f ps \<Rightarrow> Inr (s[a := HFunction f (AList.update k v ps)])
         | _ \<Rightarrow> Inl TypeError)
      else Inl TypeError)"
| "set_property _ k v s = Inl TypeError"

subsection \<open>The operations of the module\<close>

text \<open>
  Loading the module evaluates its top-level statements: the \<^verbatim>\<open>meta\<close> literal, the
  arrow function bound to \<^verbatim>\<open>Page\<close>, and the assignment of a second arrow function to
  \<^verbatim>\<open>Page.layout\<close>. The bindings \<^verbatim>\<open>meta\<close> and \<^verbatim>\<open>Page\<close> are constants of the module.
\<close>

record module =
  meta_binding :: hval
  Page_binding :: hval

definition module_load :: "store \<Rightarrow> error + module \<times> store" where
  "module_load s0 =
     (case alloc meta s0 of (m, s1) \<Rightarrow>
      case new (HFunction Fn_Page []) s1 of (p, s2) \<Rightarrow>
      case new (HFunction Fn_layout []) s2 of (l, s3) \<Rightarrow>
        (case set_property p ''layout'' l s3 of
           Inl e \<Rightarrow> Inl e
         | Inr s4 \<Rightarrow> Inr (\<lparr>meta_binding = m, Page_binding = p\<rparr>, s4)))"

text \<open>
  The bindings and the store that loading the module into the empty store gives: the
  two link objects, the links array, the \<^verbatim>\<open>meta\<close> object and the two functions.
\<close>

definition loaded_module :: module where
  "loaded_module = \<lparr>meta_binding = HRef 3, Page_binding = HRef 4\<rparr>"

definition loaded_store :: store where
  "loaded_store =
     [HObj [(''url'', HStr ''#development''), (''name'', HStr ''Development'')],
      HObj [(''url'', HStr ''#production''), (''name'', HStr ''Production'')],
      HArr [HRef 0, HRef 1],
      HObj [(''title'', HStr ''Error handling''), (''links'', HRef 2)],
      HFunction Fn_Page [(''layout'', HRef 5)],
      HFunction Fn_layout []]"

text \<open>
  A call of \<open>Page\<close> evaluates the JSX tree of its body, with the tagged templates and
  the two example arrays inside it; the arguments are not used.
\<close>

definition Page_call :: "(string \<Rightarrow> string) \<Rightarrow> hval list \<Rightarrow> store \<Rightarrow> error + hval \<times> store" where
  "Page_call dedent args s = Inr (alloc (Page dedent) s)"

text \<open>
  A call of \<open>Page.layout\<close> creates one element: the argument and the module's \<^verbatim>\<open>meta\<close>
  are passed on as they are, by reference.
\<close>

definition Page_layout_call :: "module \<Rightarrow> hval \<Rightarrow> store \<Rightarrow> error + hval \<times> store" where
  "Page_layout_call m page s =
     Inr (new (HElement (Component ''Layout'') [(''children'', page), (''meta'', meta_binding m)]) s)"

subsection \<open>Reading a value back from the store\<close>

text \<open>
  The tree of values below a reference. The first argument bounds the depth of the
  walk; the number of objects in the store is enough for every store without cycles.
  A function object is code, not data, and reads back as nothing.
\<close>

fun reify :: "nat \<Rightarrow> store \<Rightarrow> hval \<Rightarrow> jsval option"
  and reify_list :: "nat \<Rightarrow> store \<Rightarrow> hval list \<Rightarrow> jsval list option"
  and reify_props :: "nat \<Rightarrow> store \<Rightarrow> (string \<times> hval) list \<Rightarrow> props option" where
  "reify n s HUndefined = Some Undefined"
| "reify n s HNull = Some Null"
| "reify n s (HStr x) = Some (Str x)"
| "reify 0 s (HRef a) = None"
| "reify (Suc n) s (HRef a) =
     (if a < length s then
        (case s ! a of
           HArr hs \<Rightarrow> map_option Arr (reify_list n s hs)
         | HObj ps \<Rightarrow> map_option Obj (reify_props n s ps)
         | HElement t ps \<Rightarrow> map_option (Element t) (reify_props n s ps)
         | HFunction f ps \<Rightarrow> None)
      else None)"
| "reify_list n s [] = Some []"
| "reify_list n s (h # hs) =
     (case reify n s h of
        None \<Rightarrow> None
      | Some v \<Rightarrow> map_option ((#) v) (reify_list n s hs))"
| "reify_props n s [] = Some []"
| "reify_props n s (kh # ps) =
     (case reify n s (snd kh) of
        None \<Rightarrow> None
      | Some v \<Rightarrow> map_option ((#) (fst kh, v)) (reify_props n s ps))"

definition read_back :: "store \<Rightarrow> hval \<Rightarrow> jsval option" where
  "read_back s h = reify (length s) s h"

fun returned_tree :: "error + hval \<times> store \<Rightarrow> jsval option" where
  "returned_tree (Inr (r, s)) = read_back s r"
| "returned_tree (Inl e) = None"

fun store_after :: "error + 'a \<times> store \<Rightarrow> store option" where
  "store_after (Inr (r, s)) = Some s"
| "store_after (Inl e) = None"

fun succeeds :: "error + 'a \<Rightarrow> bool" where
  "succeeds (Inr x) = True"
| "succeeds (Inl e) = False"

fun depth :: "jsval \<Rightarrow> nat"
  and depth_list :: "jsval list \<Rightarrow> nat"
  and depth_props :: "props \<Rightarrow> nat" where
  "depth (Arr vs) = Suc (depth_list vs)"
| "depth (Obj ps) = Suc (depth_props ps)"
| "depth (Element t ps) = Suc (depth_props ps)"
| "depth (Str x) = 0"
| "depth Undefined = 0"
| "depth Null = 0"
| "depth_list [] = 0"
| "depth_list (v # vs) = max (depth v) (depth_list vs)"
| "depth_props [] = 0"
| "depth_props (kv # ps) = max (depth (snd kv)) (depth_props ps)"

text \<open>
  The number of objects that evaluating a literal creates in this store (one for each
  array, object literal and element), and the meta data as it reads after an
  operation.
\<close>

fun objects :: "jsval \<Rightarrow> nat"
  and objects_list :: "jsval list \<Rightarrow> nat"
  and objects_props :: "props \<Rightarrow> nat" where
  "objects (Arr vs) = Suc (objects_list vs)"
| "objects (Obj ps) = Suc (objects_props ps)"
| "objects (Element t ps) = Suc (objects_props ps)"
| "objects (Str x) = 0"
| "objects Undefined = 0"
| "objects Null = 0"
| "objects_list [] = 0"
| "objects_list (v # vs) = objects v + objects_list vs"
| "objects_props [] = 0"
| "objects_props (kv # ps) = objects (snd kv) + objects_props ps"

fun loaded_meta :: "error + module \<times> store \<Rightarrow> jsval option" where
  "loaded_meta (Inr (m, s)) = read_back s (meta_binding m)"
| "loaded_meta (Inl e) = None"

fun meta_after :: "module \<Rightarrow> error + hval \<times> store \<Rightarrow> jsval option" where
  "meta_after m (Inr (r, s)) = read_back s (meta_binding m)"
| "meta_after m (Inl e) = None"

section \<open>Reading the data\<close>

text \<open>
  Observations on values, used to state the properties: the own properties of an object
  or element, the items of an array, the children of an element, the elements of a
  given type anywhere in a tree, and the text inside an element.
\<close>

fun props_of :: "jsval \<Rightarrow> props" where
  "props_of (Obj ps) = ps"
| "props_of (Element t ps) = ps"
| "props_of _ = []"

definition get_prop :: "jsval \<Rightarrow> string \<Rightarrow> jsval option" where
  "get_prop v k = map_of (props_of v) k"

fun items :: "jsval \<Rightarrow> jsval list" where
  "items (Arr vs) = vs"
| "items _ = []"

fun elem_type :: "jsval \<Rightarrow> tag option" where
  "elem_type (Element t ps) = Some t"
| "elem_type _ = None"

definition children_of :: "jsval \<Rightarrow> jsval list" where
  "children_of v =
     (case get_prop v ''children'' of
        None \<Rightarrow> []
      | Some (Arr cs) \<Rightarrow> cs
      | Some c \<Rightarrow> [c])"

fun elements_of_type :: "tag \<Rightarrow> jsval \<Rightarrow> jsval list"
  and elements_in_list :: "tag \<Rightarrow> jsval list \<Rightarrow> jsval list"
  and elements_in_props :: "tag \<Rightarrow> props \<Rightarrow> jsval list" where
  "elements_of_type t (Element u ps) =
     (if u = t then [Element u ps] else []) @ elements_in_props t ps"
| "elements_of_type t (Arr vs) = elements_in_list t vs"
| "elements_of_type t (Obj ps) = elements_in_props t ps"
| "elements_of_type t (Str x) = []"
| "elements_of_type t Undefined = []"
| "elements_of_type t Null = []"
| "elements_in_list t [] = []"
| "elements_in_list t (v # vs) = elements_of_type t v @ elements_in_list t vs"
| "elements_in_props t [] = []"
| "elements_in_props t (kv # ps) = elements_of_type t (snd kv) @ elements_in_props t ps"

fun text_content :: "jsval \<Rightarrow> string"
  and text_of_list :: "jsval list \<Rightarrow> string"
  and text_of_children :: "props \<Rightarrow> string" where
  "text_content (Str x) = x"
| "text_content (Arr vs) = text_of_list vs"
| "text_content (Element t ps) = text_of_children ps"
| "text_content (Obj ps) = []"
| "text_content Undefined = []"
| "text_content Null = []"
| "text_of_list [] = []"
| "text_of_list (v # vs) = text_content v @ text_of_list vs"
| "text_of_children [] = []"
| "text_of_children (kv # ps) =
     (if fst kv = ''children'' then text_content (snd kv) else text_of_children ps)"

definition meta_links :: "jsval list" where
  "meta_links = (case get_prop meta ''links'' of Some v \<Rightarrow> items v | None \<Rightarrow> [])"

definition tabbed_code_examples :: "jsval \<Rightarrow> jsval list" where
  "tabbed_code_examples tree =
     concat (map (\<lambda>e. case get_prop e ''examples'' of Some v \<Rightarrow> items v | None \<Rightarrow> [])
               (elements_of_type (Component ''TabbedCode'') tree))"

definition example_named :: "string \<Rightarrow> jsval list \<Rightarrow> jsval option" where
  "example_named n exs = find (\<lambda>e. get_prop e ''name'' = Some (Str n)) exs"

definition code_of :: "string \<Rightarrow> jsval \<Rightarrow> jsval option" where
  "code_of n tree =
     (case example_named n (tabbed_code_examples tree) of
        None \<Rightarrow> None
      | Some e \<Rightarrow> get_prop e ''code'')"

fun is_string :: "jsval option \<Rightarrow> bool" where
  "is_string (Some (Str x)) = True"
| "is_string _ = False"

fun nonempty_string :: "jsval option \<Rightarrow> bool" where
  "nonempty_string (Some (Str x)) = (x \<noteq> [])"
| "nonempty_string _ = False"

definition example_shape :: "jsval \<Rightarrow> bool" where
  "example_shape e \<longleftrightarrow>
     is_string (get_prop e ''name'') \<and> is_string (get_prop e ''language'') \<and>
     is_string (get_prop e ''code'') \<and>
     (get_prop e ''description'' = None \<or> is_string (get_prop e ''description'')) \<and>
     list_all (\<lambda>k. k \<in> set [''name'', ''language'', ''description'', ''code''])
       (map fst (props_of e))"

definition display_strings :: "jsval \<Rightarrow> jsval option list" where
  "display_strings tree =
     [get_prop meta ''title''] @
     concat (map (\<lambda>l. [get_prop l ''url'', get_prop l ''name'']) meta_links) @
     concat (map (\<lambda>e. [get_prop e ''name'', get_prop e ''language''] @
                        (case get_prop e ''description'' of None \<Rightarrow> [] | Some d \<Rightarrow> [Some d]) @
                        [get_prop e ''code''])
               (tabbed_code_examples tree))"

definition join_lines :: "string list \<Rightarrow> string" where
  "join_lines ls = (case ls of [] \<Rightarrow> [] | l # rest \<Rightarrow> l @ concat (map (\<lambda>x. nl @ x) rest))"

text \<open>
  The characters that are neither indentation nor line breaks.
\<close>

definition visible :: "char \<Rightarrow> bool" where
  "visible c \<longleftrightarrow> \<not> is_indent c \<and> c \<noteq> CHR 0x0A \<and> c \<noteq> CHR 0x0D"

section \<open>Properties of the store\<close>

lemma new_prefix: "new ob s = (h, s') \<Longrightarrow> prefix s s'"
  by (auto simp: new_def)

lemma alloc_prefix:
  "prefix s (snd (alloc v s))"
  "prefix s (snd (alloc_list vs s))"
  "prefix s (snd (alloc_props ps s))"
proof (induction v s and vs s and ps s rule: alloc_alloc_list_alloc_props.induct)
  case (4 vs s)
  then show ?case
    by (auto simp: new_def split: prod.splits intro: prefix_order.trans)
next
  case (5 ps s)
  then show ?case
    by (auto simp: new_def split: prod.splits intro: prefix_order.trans)
next
  case (6 t ps s)
  then show ?case
    by (auto simp: new_def split: prod.splits intro: prefix_order.trans)
next
  case (8 v vs s)
  then show ?case
    by (auto split: prod.splits intro: prefix_order.trans)
next
  case (10 kv ps s)
  then show ?case
    by (auto split: prod.splits intro: prefix_order.trans)
qed simp_all

lemma reify_append:
  "reify n s h = Some v \<Longrightarrow> reify n (s @ t) h = Some v"
  "reify_list n s hs = Some vs \<Longrightarrow> reify_list n (s @ t) hs = Some vs"
  "reify_props n s hps = Some ps \<Longrightarrow> reify_props n (s @ t) hps = Some ps"
proof (induction n s h and n s hs and n s hps arbitrary: v and vs and ps
       rule: reify_reify_list_reify_props.induct)
  case (5 n s a)
  then show ?case
    by (auto simp: nth_append split: if_splits hobj.splits)
next
  case (7 n s h hs)
  then show ?case
    by (auto split: option.splits)
next
  case (9 n s kh ps)
  then show ?case
    by (auto split: option.splits)
qed simp_all

lemma reify_Suc:
  "reify n s h = Some v \<Longrightarrow> reify (Suc n) s h = Some v"
  "reify_list n s hs = Some vs \<Longrightarrow> reify_list (Suc n) s hs = Some vs"
  "reify_props n s hps = Some ps \<Longrightarrow> reify_props (Suc n) s hps = Some ps"
proof (induction n s h and n s hs and n s hps arbitrary: v and vs and ps
       rule: reify_reify_list_reify_props.induct)
  case (5 n s a)
  then show ?case
    by (auto split: if_splits hobj.splits)
next
  case (7 n s h hs)
  then show ?case
    by (auto split: option.splits)
next
  case (9 n s kh ps)
  then show ?case
    by (auto split: option.splits)
qed simp_all

lemma reify_mono:
  assumes "n \<le> m"
  shows "reify n s h = Some v \<Longrightarrow> reify m s h = Some v"
    and "reify_list n s hs = Some vs \<Longrightarrow> reify_list m s hs = Some vs"
    and "reify_props n s hps = Some ps \<Longrightarrow> reify_props m s hps = Some ps"
  using assms by (induction rule: dec_induct) (auto intro: reify_Suc)

lemma reify_prefix:
  assumes "prefix s s'"
  shows "reify n s h = Some v \<Longrightarrow> reify n s' h = Some v"
    and "reify_list n s hs = Some vs \<Longrightarrow> reify_list n s' hs = Some vs"
    and "reify_props n s hps = Some ps \<Longrightarrow> reify_props n s' hps = Some ps"
  using assms by (auto simp: prefix_def intro: reify_append)

lemma reify_alloc:
  "alloc v s = (h, s') \<Longrightarrow> reify (depth v) s' h = Some v"
  "alloc_list vs s = (hs, s') \<Longrightarrow> reify_list (depth_list vs) s' hs = Some vs"
  "alloc_props ps s = (hps, s') \<Longrightarrow> reify_props (depth_props ps) s' hps = Some ps"
proof (induction v s and vs s and ps s arbitrary: h s' and hs s' and hps s'
       rule: alloc_alloc_list_alloc_props.induct)
  case (4 vs s)
  then show ?case
    by (auto simp: new_def split: prod.splits intro: reify_append)
next
  case (5 ps s)
  then show ?case
    by (auto simp: new_def split: prod.splits intro: reify_append)
next
  case (6 t ps s)
  then show ?case
    by (auto simp: new_def split: prod.splits intro: reify_append)
next
  case (8 v vs s)
  obtain h1 s1 where a1: "alloc v s = (h1, s1)" by (cases "alloc v s")
  obtain hs2 s2 where a2: "alloc_list vs s1 = (hs2, s2)" by (cases "alloc_list vs s1")
  from "8.prems" a1 a2 have eq: "hs = h1 # hs2" "s' = s2" by auto
  have p: "prefix s1 s2" using alloc_prefix(2) [of s1 vs] a2 by simp
  have "reify (depth v) s1 h1 = Some v" using "8.IH"(1) a1 by simp
  then have "reify (depth v) s2 h1 = Some v" using reify_prefix(1) [OF p] by simp
  then have r1: "reify (max (depth v) (depth_list vs)) s2 h1 = Some v"
    using reify_mono(1) [of "depth v" "max (depth v) (depth_list vs)"] by simp
  have "reify_list (depth_list vs) s2 hs2 = Some vs" using "8.IH"(2) a1 a2 by simp
  then have r2: "reify_list (max (depth v) (depth_list vs)) s2 hs2 = Some vs"
    using reify_mono(2) [of "depth_list vs" "max (depth v) (depth_list vs)"] by simp
  show ?case using r1 r2 eq by simp
next
  case (10 kv ps s)
  obtain h1 s1 where a1: "alloc (snd kv) s = (h1, s1)" by (cases "alloc (snd kv) s")
  obtain hps2 s2 where a2: "alloc_props ps s1 = (hps2, s2)" by (cases "alloc_props ps s1")
  from "10.prems" a1 a2 have eq: "hps = (fst kv, h1) # hps2" "s' = s2" by auto
  have p: "prefix s1 s2" using alloc_prefix(3) [of s1 ps] a2 by simp
  have "reify (depth (snd kv)) s1 h1 = Some (snd kv)" using "10.IH"(1) a1 by simp
  then have "reify (depth (snd kv)) s2 h1 = Some (snd kv)" using reify_prefix(1) [OF p] by simp
  then have r1: "reify (max (depth (snd kv)) (depth_props ps)) s2 h1 = Some (snd kv)"
    using reify_mono(1) [of "depth (snd kv)" "max (depth (snd kv)) (depth_props ps)"] by simp
  have "reify_props (depth_props ps) s2 hps2 = Some ps" using "10.IH"(2) a1 a2 by simp
  then have r2: "reify_props (max (depth (snd kv)) (depth_props ps)) s2 hps2 = Some ps"
    using reify_mono(3) [of "depth_props ps" "max (depth (snd kv)) (depth_props ps)"] by simp
  show ?case using r1 r2 eq by simp
qed auto

lemma depth_alloc:
  "depth v \<le> length (snd (alloc v s))"
  "depth_list vs \<le> length (snd (alloc_list vs s))"
  "depth_props ps \<le> length (snd (alloc_props ps s))"
proof (induction v s and vs s and ps s rule: alloc_alloc_list_alloc_props.induct)
  case (8 v vs s)
  have "length (snd (alloc v s)) \<le> length (snd (alloc_list vs (snd (alloc v s))))"
    using alloc_prefix(2) [of "snd (alloc v s)" vs] by (simp add: prefix_length_le)
  with 8 show ?case
    by (cases "alloc v s") (auto split: prod.splits)
next
  case (10 kv ps s)
  have "length (snd (alloc (snd kv) s)) \<le> length (snd (alloc_props ps (snd (alloc (snd kv) s))))"
    using alloc_prefix(3) [of "snd (alloc (snd kv) s)" ps] by (simp add: prefix_length_le)
  with 10 show ?case
    by (cases "alloc (snd kv) s") (auto split: prod.splits)
qed (auto simp: new_def split: prod.splits)

lemma read_back_alloc: "alloc v s = (h, s') \<Longrightarrow> read_back s' h = Some v"
  unfolding read_back_def
  using reify_alloc(1) [of v s h s'] depth_alloc(1) [of v s]
    reify_mono(1) [of "depth v" "length s'" s' h v]
  by simp

lemma read_back_prefix:
  assumes "prefix s s'" and "read_back s h = Some v"
  shows "read_back s' h = Some v"
proof -
  from assms(2) have "reify (length s) s' h = Some v"
    unfolding read_back_def using reify_prefix(1) [OF assms(1)] by simp
  moreover have "length s \<le> length s'" using assms(1) by (rule prefix_length_le)
  ultimately show ?thesis
    unfolding read_back_def using reify_mono(1) by blast
qed

lemma Page_call_returns: "returned_tree (Page_call dedent args s) = Some (Page dedent)"
  by (cases "alloc (Page dedent) s") (simp add: Page_call_def read_back_alloc)

section \<open>The data of the page\<close>

lemma Page_examples:
  "tabbed_code_examples (Page dedent) =
     items (handler_examples dedent) @ items (error_page_examples dedent)"
  by (simp add: tabbed_code_examples_def Page_def createElement_def get_prop_def
      handler_examples_def error_page_examples_def)

lemma Page_top_headings:
  "filter (\<lambda>c. elem_type c = Some (Component ''H1'')) (children_of (Page dedent)) =
     [Element (Component ''H1'') [(''children'', Str ''Error handling'')]]"
  by (simp add: Page_def createElement_def children_of_def get_prop_def)

lemma vue_lines_same: "vue2_lines = vue3_lines"
  by (simp add: vue2_lines_def vue3_lines_def)

section \<open>The operations in the store\<close>

lemma module_load_result:
  "module_load s0 =
     Inr (\<lparr>meta_binding = HRef (length s0 + 3), Page_binding = HRef (length s0 + 4)\<rparr>,
          s0 @
          [HObj [(''url'', HStr ''#development''), (''name'', HStr ''Development'')],
           HObj [(''url'', HStr ''#production''), (''name'', HStr ''Production'')],
           HArr [HRef (length s0), HRef (length s0 + 1)],
           HObj [(''title'', HStr ''Error handling''), (''links'', HRef (length s0 + 2))],
           HFunction Fn_Page [(''layout'', HRef (length s0 + 5))],
           HFunction Fn_layout []])"
  by (simp add: module_load_def meta_def new_def nth_append list_update_append)

lemma module_load_prefix: "module_load s0 = Inr (m, s1) \<Longrightarrow> prefix s0 s1"
  by (auto simp: module_load_result)

lemma module_load_meta:
  assumes "module_load s0 = Inr (m, s1)"
  shows "read_back s1 (meta_binding m) = Some meta"
proof -
  obtain h sa where a: "alloc meta s0 = (h, sa)" by (cases "alloc meta s0")
  then have r: "read_back sa h = Some meta" by (rule read_back_alloc)
  from a have h: "h = HRef (length s0 + 3)"
    and sa: "sa = s0 @
          [HObj [(''url'', HStr ''#development''), (''name'', HStr ''Development'')],
           HObj [(''url'', HStr ''#production''), (''name'', HStr ''Production'')],
           HArr [HRef (length s0), HRef (length s0 + 1)],
           HObj [(''title'', HStr ''Error handling''), (''links'', HRef (length s0 + 2))]]"
    by (auto simp: meta_def new_def)
  from assms have m: "meta_binding m = h" and p: "prefix sa s1"
    unfolding h sa by (auto simp: module_load_result)
  show ?thesis using read_back_prefix [OF p r] m by simp
qed

lemma Page_call_prefix: "Page_call dedent args s = Inr (r, s') \<Longrightarrow> prefix s s'"
  using alloc_prefix(1) [of s "Page dedent"] by (auto simp: Page_call_def)

lemma Page_layout_call_prefix: "Page_layout_call m page s = Inr (r, s') \<Longrightarrow> prefix s s'"
  by (auto simp: Page_layout_call_def new_def)

lemma alloc_length:
  "length (snd (alloc v s)) = length s + objects v"
  "length (snd (alloc_list vs s)) = length s + objects_list vs"
  "length (snd (alloc_props ps s)) = length s + objects_props ps"
  by (induction v s and vs s and ps s rule: alloc_alloc_list_alloc_props.induct)
    (auto simp: new_def split: prod.splits)

lemma objects_Page: "objects (Page dedent) = 28"
  by (simp add: Page_def createElement_def handler_examples_def error_page_examples_def)

lemma prefix_take: "prefix s s' \<Longrightarrow> take (length s) s' = s"
  by (auto simp: prefix_def)

section \<open>The dedent tag keeps the visible text\<close>

lemma only_indent_visible: "only_indent cs \<Longrightarrow> filter visible cs = []"
  by (induction cs) (auto simp: visible_def split: if_splits)

lemma at_trailing_break_visible: "at_trailing_break s \<Longrightarrow> filter visible s = []"
  by (cases s) (auto simp: visible_def only_indent_visible split: if_splits list.splits)

lemma remove_trailing_visible: "filter visible (remove_trailing s) = filter visible s"
proof (induction s)
  case Nil
  show ?case by simp
next
  case (Cons c cs)
  show ?case
  proof (cases "at_trailing_break (c # cs)")
    case True
    then have r: "remove_trailing (c # cs) = []"
      by (simp del: at_trailing_break.simps)
    have v: "filter visible (c # cs) = []"
      using True by (rule at_trailing_break_visible)
    show ?thesis unfolding r v by simp
  next
    case False
    then have "remove_trailing (c # cs) = c # remove_trailing cs"
      by (simp del: at_trailing_break.simps)
    then show ?thesis using Cons by simp
  qed
qed

lemma drop_indent_visible:
  assumes "n \<le> length (takeWhile is_indent cs)"
  shows "filter visible (drop n cs) = filter visible cs"
proof -
  have "take n cs = take n (takeWhile is_indent cs)"
    using assms by (metis takeWhile_dropWhile_id take_append diff_is_0_eq take_0 append_Nil2)
  then have "set (take n cs) \<subseteq> set (takeWhile is_indent cs)"
    by (metis set_take_subset)
  then have "\<forall>c \<in> set (take n cs). is_indent c"
    using set_takeWhileD by fastforce
  then have "filter visible (take n cs) = []"
    by (auto simp: filter_empty_conv visible_def)
  then show ?thesis
    by (metis append_take_drop_id filter_append append_Nil)
qed

lemma unindent_visible: "filter visible (unindent n s) = filter visible s"
proof (induction n s rule: unindent.induct)
  case (1 n)
  show ?case by simp
next
  case (2 n c cs)
  then show ?case
    by (auto simp: drop_indent_visible)
qed

lemma remove_leading_visible: "filter visible (remove_leading s) = filter visible s"
  by (cases s) (auto simp: visible_def is_indent_def split: list.splits)

lemma dedent_js_visible: "filter visible (dedent_js s) = filter visible s"
  by (simp add: dedent_js_def Let_def remove_leading_visible unindent_visible
      remove_trailing_visible)

lemma dedent_js_nonempty: "filter visible s \<noteq> [] \<Longrightarrow> dedent_js s \<noteq> []"
  using dedent_js_visible [of s] by auto

lemma template_visible_first:
  "filter visible l \<noteq> [] \<Longrightarrow> filter visible (template k (l # ls)) \<noteq> []"
  by (simp add: template_def)

lemma codes_nonempty:
  "dedent_js laravel_code \<noteq> []" "dedent_js rails_code \<noteq> []"
  "dedent_js vue2_code \<noteq> []" "dedent_js vue3_code \<noteq> []"
  "dedent_js react_code \<noteq> []" "dedent_js svelte_code \<noteq> []"
  by (rule dedent_js_nonempty,
      simp add: laravel_code_def laravel_lines_def rails_code_def rails_lines_def
        vue2_code_def vue2_lines_def vue3_code_def vue3_lines_def react_code_def
        react_lines_def svelte_code_def svelte_lines_def template_visible_first
        visible_def is_indent_def)+

lemma dedent_js_laravel_code:
  "dedent_js laravel_code = join_lines (map (drop 14) laravel_lines)"
  by code_simp

lemma laravel_lines_indented:
  "list_all (\<lambda>l. take 14 l = replicate 14 (CHR '' '')) laravel_lines"
  by (simp add: laravel_lines_def eval_nat_numeral)

section \<open>The properties\<close>

text \<open>
  Claim C1: the navigation metadata \<open>meta.links\<close> has exactly two entries; their \<open>url\<close>
  fields are \<open>#development\<close> and \<open>#production\<close>, in that order, and their \<open>name\<close> fields
  are \<open>Development\<close> and \<open>Production\<close>. These are the only anchor fragments of the
  links metadata.
\<close>

theorem meta_links_entries:
  "length meta_links = 2 \<and>
   map (\<lambda>l. get_prop l ''url'') meta_links = [Some (Str ''#development''), Some (Str ''#production'')] \<and>
   map (\<lambda>l. get_prop l ''name'') meta_links = [Some (Str ''Development''), Some (Str ''Production'')]"
  by (simp add: meta_links_def meta_def get_prop_def)

text \<open>
  Claim C3: for every call of \<open>Page\<close>, with any arguments and in any store, the tree it
  returns has among its top-level children exactly one \<open>H1\<close> element, and the text of that
  element is \<open>Error handling\<close>; the \<open>title\<close> of the page metadata is the same string.
\<close>

theorem Page_heading:
  "map_option (\<lambda>t. map text_content
       (filter (\<lambda>c. elem_type c = Some (Component ''H1'')) (children_of t)))
     (returned_tree (Page_call dedent args s)) = Some [''Error handling''] \<and>
   get_prop meta ''title'' = Some (Str ''Error handling'')"
  by (simp add: Page_call_returns Page_top_headings meta_def get_prop_def)

text \<open>
  Claim C4: \<open>Page\<close> is a constant function. Any two calls, whatever their
  arguments and whatever the store they run in, return the same tree, the one its body
  describes.
\<close>

theorem Page_constant:
  "returned_tree (Page_call dedent args1 s1) = returned_tree (Page_call dedent args2 s2) \<and>
   returned_tree (Page_call dedent args1 s1) = Some (Page dedent)"
  by (simp add: Page_call_returns)

text \<open>
  Claim C5: every example object passed to a \<open>TabbedCode\<close> element has a \<open>name\<close>, a
  \<open>language\<close> and a \<open>code\<close> field, each a string, and no field other than these and
  \<open>description\<close>. The \<open>description\<close> is optional: the first of the six examples has
  one (a string), the other five have none.
\<close>

theorem example_fields:
  "list_all example_shape (tabbed_code_examples (Page dedent)) \<and>
   map (\<lambda>e. is_string (get_prop e ''description'')) (tabbed_code_examples (Page dedent)) =
     [True, False, False, False, False, False]"
  by (simp add: Page_examples handler_examples_def error_page_examples_def
      example_shape_def get_prop_def)

text \<open>
  Claim C9: the \<open>code\<close> strings of the examples named \<open>Vue 2\<close> and \<open>Vue 3\<close> are
  the same text: both examples are found, each holds the result of the tag on its own
  template, and the two results are equal (the two templates are the same text).
\<close>

theorem vue_codes_identical:
  "code_of ''Vue 2'' (Page dedent) = Some (Str (dedent vue2_code)) \<and>
   code_of ''Vue 3'' (Page dedent) = Some (Str (dedent vue3_code)) \<and>
   dedent vue2_code = dedent vue3_code"
  by (simp add: code_of_def example_named_def Page_examples handler_examples_def
      error_page_examples_def get_prop_def vue2_code_def vue3_code_def vue_lines_same)

text \<open>
  Claim C8: no operation of the module fails. Loading the module from any store, calling
  \<open>Page\<close> with any arguments and calling \<open>Page.layout\<close> with any argument, in any store,
  all return a result and never an error.
\<close>

theorem no_operation_fails:
  "succeeds (module_load s0) \<and> succeeds (Page_call dedent args s) \<and>
   succeeds (Page_layout_call m page s)"
  by (simp add: module_load_result Page_call_def Page_layout_call_def)

text \<open>
  Claim C10: for every argument \<open>page\<close>, \<open>Page.layout\<close> creates one new object, a
  \<open>Layout\<close> element with two props: \<open>children\<close> is the argument itself and \<open>meta\<close> is
  the module's \<open>meta\<close> binding, both passed by reference and unchanged. Read as values:
  when the argument is the tree \<open>t\<close> and the binding holds the data \<open>md\<close>, the result is
  the \<open>Layout\<close> element with children \<open>t\<close> and meta \<open>md\<close>.
\<close>

theorem Page_layout_element:
  "store_after (Page_layout_call m page s) =
     Some (s @ [HElement (Component ''Layout'') [(''children'', page), (''meta'', meta_binding m)]]) \<and>
   (read_back s page = Some t \<and> read_back s (meta_binding m) = Some md \<longrightarrow>
      returned_tree (Page_layout_call m page s) =
        Some (Element (Component ''Layout'') [(''children'', t), (''meta'', md)]))"
proof -
  let ?el = "HElement (Component ''Layout'') [(''children'', page), (''meta'', meta_binding m)]"
  have call: "Page_layout_call m page s = Inr (HRef (length s), s @ [?el])"
    by (simp add: Page_layout_call_def new_def)
  have "returned_tree (Page_layout_call m page s) =
          Some (Element (Component ''Layout'') [(''children'', t), (''meta'', md)])"
    if t: "read_back s page = Some t" and md: "read_back s (meta_binding m) = Some md"
  proof -
    have "reify (length s) (s @ [?el]) page = Some t"
      using t reify_append(1) unfolding read_back_def by blast
    moreover have "reify (length s) (s @ [?el]) (meta_binding m) = Some md"
      using md reify_append(1) unfolding read_back_def by blast
    ultimately show ?thesis
      by (simp add: call read_back_def)
  qed
  then show ?thesis by (simp add: call)
qed

theorem Page_layout_element_witness:
  "read_back
     (loaded_store @ [HElement (Component ''H1'') [(''children'', HStr ''Error handling'')]])
     (HRef 6) = Some (Element (Component ''H1'') [(''children'', Str ''Error handling'')]) \<and>
   read_back
     (loaded_store @ [HElement (Component ''H1'') [(''children'', HStr ''Error handling'')]])
     (meta_binding loaded_module) = Some meta \<and>
   returned_tree
     (Page_layout_call loaded_module (HRef 6)
        (loaded_store @ [HElement (Component ''H1'') [(''children'', HStr ''Error handling'')]])) =
     Some (Element (Component ''Layout'')
       [(''children'', Element (Component ''H1'') [(''children'', Str ''Error handling'')]),
        (''meta'', meta)])"
proof -
  let ?s = "loaded_store @ [HElement (Component ''H1'') [(''children'', HStr ''Error handling'')]]"
  have p: "read_back ?s (HRef 6) =
      Some (Element (Component ''H1'') [(''children'', Str ''Error handling'')])"
    by (simp add: read_back_def loaded_store_def)
  have q: "read_back ?s (meta_binding loaded_module) = Some meta"
    by (simp add: read_back_def meta_def loaded_store_def loaded_module_def)
  from p q Page_layout_element [of loaded_module "HRef 6" ?s
      "Element (Component ''H1'') [(''children'', Str ''Error handling'')]" meta]
  show ?thesis by blast
qed

text \<open>
  Claim C6: every display string of the structured data is a non-empty string: the
  title of the metadata, the \<open>url\<close> and \<open>name\<close> of each link, and the \<open>name\<close>,
  \<open>language\<close>, \<open>description\<close> (where there is one) and \<open>code\<close> of each example, the
  code being the result of the dedent tag.
\<close>

theorem display_strings_nonempty:
  "list_all nonempty_string (display_strings (Page dedent_js))"
  by (simp add: display_strings_def meta_links_def meta_def get_prop_def Page_examples
      handler_examples_def error_page_examples_def codes_nonempty)

text \<open>
  Claim C2, as stated, fails: the \<open>code\<close> of the example named \<open>Laravel\<close> is not the
  text of its template literal. The literal starts with a line break and every line of
  it is indented; the dedent tag removes both.
\<close>

theorem laravel_code_differs_from_literal:
  "code_of ''Laravel'' (Page dedent_js) \<noteq> Some (Str laravel_code)"
proof -
  have "hd (dedent_js laravel_code) = CHR ''u''"
    by (simp add: dedent_js_laravel_code laravel_lines_def join_lines_def)
  moreover have "hd laravel_code = CHR 0x0A"
    by (simp add: laravel_code_def laravel_lines_def template_def)
  ultimately have "dedent_js laravel_code \<noteq> laravel_code"
    by auto
  then show ?thesis
    by (simp add: code_of_def example_named_def Page_examples handler_examples_def get_prop_def)
qed

text \<open>
  Claim C2, amended: the \<open>code\<close> of the example named \<open>Laravel\<close> is the result of the
  tag on the text of its template literal, whatever the tag; with the dedent tag it is,
  byte for byte, the lines of the literal without their fourteen spaces of indentation,
  joined by line breaks: the line break after the opening backtick, the indentation of
  each line and the line break and indentation before the closing backtick are gone,
  and nothing else is changed.
\<close>

theorem laravel_code_text:
  "code_of ''Laravel'' (Page dedent) = Some (Str (dedent laravel_code)) \<and>
   code_of ''Laravel'' (Page dedent_js) = Some (Str (join_lines (map (drop 14) laravel_lines))) \<and>
   list_all (\<lambda>l. take 14 l = replicate 14 (CHR '' '')) laravel_lines"
  by (simp add: code_of_def example_named_def Page_examples handler_examples_def
      get_prop_def dedent_js_laravel_code laravel_lines_indented)

text \<open>
  Claim C7, as stated, fails: the two example arrays are not created at module load.
  The store after loading the module into the empty store holds six objects, and none
  of them reads back as either example array. A call of \<open>Page\<close> in that store creates
  them: afterwards the first array is the object at address 23 and the second the one
  at address 30, both beyond the six objects of the loaded module.
\<close>

theorem examples_created_by_Page:
  "module_load [] = Inr (loaded_module, loaded_store) \<and>
   length loaded_store = 6 \<and>
   Some (handler_examples dedent_js) \<notin>
     set (map (read_back loaded_store) [HRef 0, HRef 1, HRef 2, HRef 3, HRef 4, HRef 5]) \<and>
   Some (error_page_examples dedent_js) \<notin>
     set (map (read_back loaded_store) [HRef 0, HRef 1, HRef 2, HRef 3, HRef 4, HRef 5]) \<and>
   map_option (\<lambda>s. read_back s (HRef 23)) (store_after (Page_call dedent_js [] loaded_store)) =
     Some (Some (handler_examples dedent_js)) \<and>
   map_option (\<lambda>s. read_back s (HRef 30)) (store_after (Page_call dedent_js [] loaded_store)) =
     Some (Some (error_page_examples dedent_js))"
proof -
  have "module_load [] = Inr (loaded_module, loaded_store)"
    by (simp add: module_load_result loaded_module_def loaded_store_def)
  moreover have "length loaded_store = 6"
    by (simp add: loaded_store_def)
  moreover have "Some (handler_examples dedent_js) \<notin>
      set (map (read_back loaded_store) [HRef 0, HRef 1, HRef 2, HRef 3, HRef 4, HRef 5])"
    by (simp add: read_back_def handler_examples_def loaded_store_def)
  moreover have "Some (error_page_examples dedent_js) \<notin>
      set (map (read_back loaded_store) [HRef 0, HRef 1, HRef 2, HRef 3, HRef 4, HRef 5])"
    by (simp add: read_back_def error_page_examples_def loaded_store_def)
  moreover have "read_back (snd (alloc (Page dedent_js) loaded_store)) (HRef 23) =
      Some (handler_examples dedent_js)"
    by (simp add: loaded_store_def Page_def createElement_def handler_examples_def
        error_page_examples_def new_def read_back_def)
  moreover have "read_back (snd (alloc (Page dedent_js) loaded_store)) (HRef 30) =
      Some (error_page_examples dedent_js)"
    by (simp add: loaded_store_def Page_def createElement_def handler_examples_def
        error_page_examples_def new_def read_back_def)
  ultimately show ?thesis
    by (cases "alloc (Page dedent_js) loaded_store") (simp add: Page_call_def)
qed

text \<open>
  Claim C7, amended: the \<open>meta\<close> object is created by loading the module, and the two
  example arrays by each call of \<open>Page\<close>, which creates the 28 objects of the tree it
  returns. No operation changes an object that exists: after a call of \<open>Page\<close> or of
  \<open>Page.layout\<close>, in any store, the objects that were in the store are all there,
  unchanged, and the \<open>meta\<close> binding still reads as the same data.
\<close>

theorem data_not_mutated:
  "loaded_meta (module_load s0) = Some meta \<and>
   map_option (take (length s)) (store_after (Page_call dedent args s)) = Some s \<and>
   map_option length (store_after (Page_call dedent args s)) = Some (length s + 28) \<and>
   returned_tree (Page_call dedent args s) = Some (Page dedent) \<and>
   map_option (take (length s)) (store_after (Page_layout_call m page s)) = Some s \<and>
   (read_back s (meta_binding m) = Some meta \<longrightarrow>
      meta_after m (Page_call dedent args s) = Some meta \<and>
      meta_after m (Page_layout_call m page s) = Some meta)"
proof -
  obtain lm ls where l: "module_load s0 = Inr (lm, ls)"
    by (simp add: module_load_result)
  have a: "loaded_meta (module_load s0) = Some meta"
    using module_load_meta [OF l] by (simp add: l)
  obtain r s' where p: "Page_call dedent args s = Inr (r, s')"
    by (cases "alloc (Page dedent) s") (simp add: Page_call_def)
  have pp: "prefix s s'" using p by (rule Page_call_prefix)
  have b: "map_option (take (length s)) (store_after (Page_call dedent args s)) = Some s"
    using prefix_take [OF pp] by (simp add: p)
  have "length s' = length s + 28"
    using p alloc_length(1) [of "Page dedent" s] by (auto simp: Page_call_def objects_Page)
  then have c: "map_option length (store_after (Page_call dedent args s)) = Some (length s + 28)"
    by (simp add: p)
  obtain r2 s2 where q: "Page_layout_call m page s = Inr (r2, s2)"
    by (simp add: Page_layout_call_def new_def)
  have qp: "prefix s s2" using q by (rule Page_layout_call_prefix)
  have d: "map_option (take (length s)) (store_after (Page_layout_call m page s)) = Some s"
    using prefix_take [OF qp] by (simp add: q)
  have e: "meta_after m (Page_call dedent args s) = Some meta \<and>
      meta_after m (Page_layout_call m page s) = Some meta"
    if "read_back s (meta_binding m) = Some meta"
    using read_back_prefix [OF pp that] read_back_prefix [OF qp that] by (simp add: p q)
  from a b c d e show ?thesis by (simp add: Page_call_returns)
qed

theorem data_not_mutated_witness:
  "read_back loaded_store (meta_binding loaded_module) = Some meta \<and>
   meta_after loaded_module (Page_call dedent_js [] loaded_store) = Some meta \<and>
   meta_after loaded_module (Page_layout_call loaded_module HUndefined loaded_store) = Some meta"
proof -
  have h: "read_back loaded_store (meta_binding loaded_module) = Some meta"
    by (simp add: read_back_def meta_def loaded_store_def loaded_module_def)
  from h data_not_mutated [of "[]" loaded_store dedent_js "[]" loaded_module HUndefined]
  show ?thesis by blast
qed


end
